theory Spec2Isabelle
  imports Main "HOL-Library.Word"
begin

section \<open>JavaScript strings\<close>

text \<open>
  A JavaScript string is a sequence of UTF-16 code units. \<open>js\<close> writes an ASCII
  literal of the source as such a sequence.
\<close>

type_synonym jschar = "16 word"
type_synonym jsstring = "jschar list"

definition js :: "string \<Rightarrow> jsstring" where
  "js s = map of_char s"

text \<open>
  \<open>String.prototype.trim\<close> removes the code units ECMAScript calls WhiteSpace
  (TAB, VT, FF, SP, NBSP, ZWNBSP and the Unicode space separators) and LineTerminator
  (LF, CR, LS, PS) from both ends.
\<close>

definition isWhiteSpace :: "jschar \<Rightarrow> bool" where
  "isWhiteSpace c =
     (c = 0x0009 \<or> c = 0x000A \<or> c = 0x000B \<or> c = 0x000C \<or> c = 0x000D \<or> c = 0x0020 \<or>
      c = 0x00A0 \<or> c = 0x1680 \<or> (0x2000 \<le> c \<and> c \<le> 0x200A) \<or> c = 0x2028 \<or> c = 0x2029 \<or>
      c = 0x202F \<or> c = 0x205F \<or> c = 0x3000 \<or> c = 0xFEFF)"

definition trim :: "jsstring \<Rightarrow> jsstring" where
  "trim s = rev (dropWhile isWhiteSpace (rev (dropWhile isWhiteSpace s)))"

text \<open>\<open>String.prototype.includes\<close>: the search string occurs as a contiguous run.\<close>

fun startsWith :: "'a list \<Rightarrow> 'a list \<Rightarrow> bool" where
  "startsWith s [] = True"
| "startsWith [] (p # ps) = False"
| "startsWith (c # cs) (p # ps) = (c = p \<and> startsWith cs ps)"

fun includes_js :: "'a list \<Rightarrow> 'a list \<Rightarrow> bool" where
  "includes_js [] p = startsWith [] p"
| "includes_js (c # cs) p = (startsWith (c # cs) p \<or> includes_js cs p)"

text \<open>\<open>Number.prototype.toString\<close> on an integer: its decimal digits, with a sign.\<close>

function digits :: "int \<Rightarrow> jsstring" where
  "digits n = (if n < 10 then [of_int (48 + n)] else digits (n div 10) @ [of_int (48 + n mod 10)])"
  by pat_completeness auto
termination
  by (relation "measure nat") auto

definition toString :: "int \<Rightarrow> jsstring" where
  "toString i = (if i < 0 then of_char (CHR ''-'') # digits (- i) else digits i)"

text \<open>Truthiness of a string value that may be absent: present and not empty.\<close>

definition truthy :: "jsstring option \<Rightarrow> bool" where
  "truthy v = (case v of None \<Rightarrow> False | Some s \<Rightarrow> s \<noteq> [])"

text \<open>\<open>v || d\<close> on strings: \<open>v\<close> when it is truthy, else \<open>d\<close>.\<close>

definition orElse :: "jsstring option \<Rightarrow> jsstring \<Rightarrow> jsstring" where
  "orElse v d = (case v of None \<Rightarrow> d | Some s \<Rightarrow> if s \<noteq> [] then s else d)"

section \<open>Data model\<close>

text \<open>The interfaces \<open>User\<close>, \<open>Message\<close> and \<open>Conversation\<close> of the two context modules.\<close>

record user =
  id_user :: int
  email :: jsstring
  username :: jsstring

datatype role = RoleUser | RoleAssistant | RoleSystem

record message =
  id_message :: jsstring
  content :: jsstring
  role :: role
  timestamp :: jsstring

record conversation =
  id_conversation :: jsstring
  title :: jsstring
  messages :: "message list"
  createdAt :: jsstring
  updatedAt :: jsstring
  summary :: "jsstring option"

text \<open>
  The payload \<open>jwtDecode\<close> returns, read at the three properties the session manager uses.
\<close>

record jwt_claims =
  user_id :: int
  email_claim :: jsstring
  username_claim :: jsstring

subsection \<open>The HTTP client seen from its callers\<close>

text \<open>
  A call on the client either resolves with the response body or rejects with an error.
  The error carries a response (status and, when the body is an object, its \<open>detail\<close> and
  \<open>message\<close> properties) or none: no response was received, or the request could not be
  set up.
\<close>

record error_data =
  detail :: "jsstring option"
  message :: "jsstring option"

datatype api_error = ResponseError nat "error_data option" | NoResponse | SetupError

record token_pair =
  access :: jsstring
  refresh :: jsstring

type_synonym search_result = jsstring

record chat_reply =
  response :: "jsstring option"
  search_results :: "search_result list option"

datatype body =
    TokenBody jsstring jsstring
  | RegisterBody jsstring jsstring jsstring jsstring
  | TitleBody jsstring
  | ChatBody jsstring jsstring
  | SearchBody jsstring jsstring

datatype request = GET jsstring | POST jsstring body | DELETE jsstring

datatype toast = ToastSuccess jsstring | ToastError jsstring

text \<open>
  The four clock reads of one optimistic append, in the order the source makes them:
  \<open>Date.now()\<close> and \<open>new Date().toISOString()\<close> for the user message, then the same
  two for the assistant message.
\<close>

record clock =
  now_user :: int
  iso_user :: jsstring
  now_assistant :: int
  iso_assistant :: jsstring

subsection \<open>Client state\<close>

text \<open>
  The state of the session provider (\<open>user\<close>, \<open>isLoading\<close>), of the chat provider
  (\<open>currentConversation\<close>, \<open>searchQuery\<close>, \<open>isSending\<close>, the cached results of the
  search query by key), the browser's \<open>localStorage\<close>, the client's default
  \<open>Authorization\<close> header, and what the code has done to the outside: the calls made on
  the HTTP client, the notifications raised, and how often the conversation collection
  was invalidated. The collection itself is the server's: the client only asks for it
  again after an invalidation.
\<close>

record app =
  user :: "user option"
  isLoading :: bool
  currentConversation :: "conversation option"
  searchQuery :: jsstring
  isSending :: bool
  searchCache :: "jsstring \<times> jsstring option \<rightharpoonup> search_result list"
  localStorage :: "jsstring \<rightharpoonup> jsstring"
  defaultAuthorization :: "jsstring option"
  requests :: "request list"
  toasts :: "toast list"
  invalidations :: nat

definition initial :: "(jsstring \<rightharpoonup> jsstring) \<Rightarrow> app" where
  "initial storage =
     \<lparr>user = None, isLoading = True, currentConversation = None, searchQuery = [],
      isSending = False, searchCache = Map.empty, localStorage = storage,
      defaultAuthorization = None, requests = [], toasts = [], invalidations = 0\<rparr>"

definition getItem :: "(jsstring \<rightharpoonup> jsstring) \<Rightarrow> jsstring \<Rightarrow> jsstring option" where
  "getItem storage k = storage k"

definition setItem :: "(jsstring \<rightharpoonup> jsstring) \<Rightarrow> jsstring \<Rightarrow> jsstring \<Rightarrow> (jsstring \<rightharpoonup> jsstring)" where
  "setItem storage k v = storage(k \<mapsto> v)"

definition removeItem :: "(jsstring \<rightharpoonup> jsstring) \<Rightarrow> jsstring \<Rightarrow> (jsstring \<rightharpoonup> jsstring)" where
  "removeItem storage k = storage(k := None)"

definition call :: "request \<Rightarrow> app \<Rightarrow> app" where
  "call r s = s\<lparr>requests := requests s @ [r]\<rparr>"

definition toast :: "toast \<Rightarrow> app \<Rightarrow> app" where
  "toast t s = s\<lparr>toasts := toasts s @ [t]\<rparr>"

definition invalidateConversations :: "app \<Rightarrow> app" where
  "invalidateConversations s = s\<lparr>invalidations := Suc (invalidations s)\<rparr>"

section \<open>The request interceptor of the HTTP client\<close>

record config =
  url :: "jsstring option"
  headers :: "jsstring \<rightharpoonup> jsstring"

text \<open>\<open>config.url?.includes(p)\<close>: an absent url gives \<open>undefined\<close>, which is falsy.\<close>

definition urlIncludes :: "jsstring option \<Rightarrow> jsstring \<Rightarrow> bool" where
  "urlIncludes u p = (case u of None \<Rightarrow> False | Some x \<Rightarrow> includes_js x p)"

definition requestInterceptor :: "(jsstring \<rightharpoonup> jsstring) \<Rightarrow> config \<Rightarrow> config" where
  "requestInterceptor storage cfg =
     (if \<not> urlIncludes (url cfg) (js ''token'') \<and> \<not> urlIncludes (url cfg) (js ''login'') then
        (case getItem storage (js ''access_token'') of
           None \<Rightarrow> cfg
         | Some token \<Rightarrow>
             if token \<noteq> [] then
               cfg\<lparr>headers := (headers cfg)(js ''Authorization'' \<mapsto> js ''Bearer '' @ token)\<rparr>
             else cfg)
      else cfg)"

text \<open>
  What goes out. Before the interceptors run, the HTTP library puts the client's default
  headers under the request's own: a header the request sets itself wins. \<open>login\<close>
  writes the client's default \<open>Authorization\<close> header "for future requests"; of the
  default headers it is the only one that changes and the only one followed here.
\<close>

definition withDefaults :: "app \<Rightarrow> config \<Rightarrow> config" where
  "withDefaults s cfg =
     (case defaultAuthorization s of
        None \<Rightarrow> cfg
      | Some a \<Rightarrow> cfg\<lparr>headers := [js ''Authorization'' \<mapsto> a] ++ headers cfg\<rparr>)"

definition outbound :: "app \<Rightarrow> config \<Rightarrow> config" where
  "outbound s cfg = requestInterceptor (localStorage s) (withDefaults s cfg)"

section \<open>The session provider\<close>

text \<open>
  The effect run once on mount. \<open>jwtDecode\<close> belongs to a library: it is a parameter,
  and \<open>None\<close> is its exception.
\<close>

definition initAuth :: "(jsstring \<Rightarrow> jwt_claims option) \<Rightarrow> app \<Rightarrow> app" where
  "initAuth jwtDecode s =
     (let s1 =
        (case getItem (localStorage s) (js ''access_token'') of
           None \<Rightarrow> s
         | Some token \<Rightarrow>
             if token \<noteq> [] then
               (case jwtDecode token of
                  Some decoded \<Rightarrow>
                    s\<lparr>user := Some \<lparr>id_user = user_id decoded, email = email_claim decoded,
                                     username = username_claim decoded\<rparr>\<rparr>
                | None \<Rightarrow>
                    s\<lparr>localStorage :=
                        removeItem (removeItem (localStorage s) (js ''access_token''))
                          (js ''refresh_token'')\<rparr>)
             else s)
      in s1\<lparr>isLoading := False\<rparr>)"

text \<open>
  \<open>error.response?.data?.detail || error.response?.data?.message || fallback\<close>
\<close>

definition errorDetail :: "api_error \<Rightarrow> jsstring option" where
  "errorDetail e = (case e of ResponseError status (Some d) \<Rightarrow> detail d | _ \<Rightarrow> None)"

definition errorMessage :: "api_error \<Rightarrow> jsstring option" where
  "errorMessage e = (case e of ResponseError status (Some d) \<Rightarrow> message d | _ \<Rightarrow> None)"

definition failureMessage :: "api_error \<Rightarrow> jsstring \<Rightarrow> jsstring" where
  "failureMessage e fallback = orElse (errorDetail e) (orElse (errorMessage e) fallback)"

definition loginFallback :: jsstring where
  "loginFallback = js ''Login failed. Please check your credentials and try again.''"

definition registerFallback :: jsstring where
  "registerFallback = js ''Registration failed. Please check your details and try again.''"

text \<open>
  \<open>login\<close>: the two responses are what the server answers to the token request and to
  the profile request; the second is read only when the first succeeded. The result is
  the promised boolean and the state afterwards.
\<close>

definition login ::
  "jsstring \<Rightarrow> jsstring \<Rightarrow> api_error + token_pair \<Rightarrow> api_error + user \<Rightarrow> app \<Rightarrow> bool \<times> app" where
  "login username' password tokenResponse profileResponse s =
     (let s1 = call (POST (js ''/auth/token/'') (TokenBody username' password)) s in
      case tokenResponse of
        Inl error \<Rightarrow> (False, toast (ToastError (failureMessage error loginFallback)) s1)
      | Inr data \<Rightarrow>
          (let s2 = s1\<lparr>localStorage :=
                          setItem (setItem (localStorage s1) (js ''access_token'') (access data))
                            (js ''refresh_token'') (refresh data)\<rparr>;
               s3 = s2\<lparr>defaultAuthorization := Some (js ''Bearer '' @ access data)\<rparr>;
               s4 = call (GET (js ''/api/users/me/'')) s3 in
           case profileResponse of
             Inl error \<Rightarrow> (False, toast (ToastError (failureMessage error loginFallback)) s4)
           | Inr profile \<Rightarrow>
               (True, toast (ToastSuccess (js ''Logged in successfully!''))
                        (s4\<lparr>user := Some profile\<rparr>))))"

definition register ::
  "jsstring \<Rightarrow> jsstring \<Rightarrow> jsstring \<Rightarrow> api_error + unit \<Rightarrow> app \<Rightarrow> bool \<times> app" where
  "register email' username' password registerResponse s =
     (let s1 = call (POST (js ''/api/users/register/'')
                       (RegisterBody email' username' password password)) s in
      case registerResponse of
        Inl error \<Rightarrow> (False, toast (ToastError (failureMessage error registerFallback)) s1)
      | Inr _ \<Rightarrow> (True, toast (ToastSuccess (js ''Registration successful! Please log in.'')) s1))"

definition logout :: "app \<Rightarrow> app" where
  "logout s =
     toast (ToastSuccess (js ''Logged out successfully''))
       (s\<lparr>localStorage :=
            removeItem (removeItem (localStorage s) (js ''access_token'')) (js ''refresh_token''),
          user := None\<rparr>)"

section \<open>The chat provider\<close>

text \<open>
  Each operation takes the server's answer to its request as an argument and runs from
  its call to its end with no other event in between. A callback reads the current
  conversation of the render that made it; the model reads it from the state at the
  call. An operation that lets a failure escape returns it as \<open>Inl\<close>.
\<close>

definition setCurrentConversation :: "conversation option \<Rightarrow> app \<Rightarrow> app" where
  "setCurrentConversation c s = s\<lparr>currentConversation := c\<rparr>"

definition setSearchQuery :: "jsstring \<Rightarrow> app \<Rightarrow> app" where
  "setSearchQuery q s = s\<lparr>searchQuery := q\<rparr>"

text \<open>\<open>currentConversation?.id\<close>\<close>

definition currentId :: "app \<Rightarrow> jsstring option" where
  "currentId s = map_option id_conversation (currentConversation s)"

definition createNewConversation ::
  "api_error + conversation \<Rightarrow> app \<Rightarrow> (api_error + conversation) \<times> app" where
  "createNewConversation createResponse s =
     (let s1 = call (POST (js ''/chat/conversations/'') (TitleBody (js ''New Conversation''))) s in
      case createResponse of
        Inl error \<Rightarrow> (Inl error, s1)
      | Inr data \<Rightarrow> (Inr data, invalidateConversations s1))"

definition deleteConversation ::
  "jsstring \<Rightarrow> api_error + unit \<Rightarrow> app \<Rightarrow> (api_error + unit) \<times> app" where
  "deleteConversation cid deleteResponse s =
     (let s1 = call (DELETE (js ''/chat/conversations/'' @ cid @ js ''/'')) s in
      case deleteResponse of
        Inl error \<Rightarrow> (Inl error, s1)
      | Inr _ \<Rightarrow>
          (let s2 = (if currentId s = Some cid then setCurrentConversation None s1 else s1)
           in (Inr (), invalidateConversations s2)))"

text \<open>The updater \<open>sendMessage\<close> passes to \<open>setCurrentConversation\<close>.\<close>

definition appendReply ::
  "jsstring \<Rightarrow> jsstring \<Rightarrow> clock \<Rightarrow> conversation option \<Rightarrow> conversation option" where
  "appendReply content' reply clk prev =
     (case prev of
        None \<Rightarrow> None
      | Some p \<Rightarrow>
          Some (p\<lparr>messages := messages p @
            [\<lparr>id_message = toString (now_user clk), content = trim content',
              role = RoleUser, timestamp = iso_user clk\<rparr>,
             \<lparr>id_message = toString (now_assistant clk + 1), content = reply,
              role = RoleAssistant, timestamp = iso_assistant clk\<rparr>]\<rparr>))"

definition sendMessage :: "jsstring \<Rightarrow> api_error + chat_reply \<Rightarrow> clock \<Rightarrow> app \<Rightarrow> app" where
  "sendMessage content' chatResponse clk s =
     (if trim content' = [] \<or> \<not> truthy (currentId s) then s
      else
        (let s1 = s\<lparr>isSending := True\<rparr>;
             s2 = call (POST (js ''/chat/'') (ChatBody (trim content') (orElse (currentId s) []))) s1;
             s3 =
               (case chatResponse of
                  Inl error \<Rightarrow> toast (ToastError (js ''Failed to send message'')) s2
                | Inr data \<Rightarrow>
                    (let s2' =
                       (if truthy (response data) then
                          s2\<lparr>currentConversation :=
                               appendReply content' (orElse (response data) []) clk
                                 (currentConversation s2)\<rparr>
                        else s2)
                     in invalidateConversations s2'))
         in s3\<lparr>isSending := False\<rparr>))"

text \<open>The effect that loads the conversation whose id is current.\<close>

definition loadConversation :: "api_error + conversation \<Rightarrow> app \<Rightarrow> app" where
  "loadConversation loadResponse s =
     (if truthy (currentId s) then
        (let s1 = call (GET (js ''/conversations/'' @ orElse (currentId s) [] @ js ''/'')) s in
         case loadResponse of
           Inl error \<Rightarrow> toast (ToastError (js ''Failed to load conversation'')) s1
         | Inr data \<Rightarrow> setCurrentConversation (Some data) s1)
      else s)"

text \<open>The \<open>messages\<close> the provider exposes: \<open>currentConversation?.messages || []\<close>.\<close>

definition contextMessages :: "app \<Rightarrow> message list" where
  "contextMessages s = (case currentConversation s of None \<Rightarrow> [] | Some c \<Rightarrow> messages c)"

subsection \<open>The search query\<close>

text \<open>
  The query is keyed by the search text and the current id. Its results are what the
  cache holds under the current key, and the empty list when it holds nothing. The
  query function runs only while the query is enabled; what it returns is stored under
  the key it ran for.
\<close>

definition searchKey :: "app \<Rightarrow> jsstring \<times> jsstring option" where
  "searchKey s = (searchQuery s, currentId s)"

definition searchEnabled :: "app \<Rightarrow> bool" where
  "searchEnabled s = (trim (searchQuery s) \<noteq> [] \<and> truthy (currentId s))"

definition searchResults :: "app \<Rightarrow> search_result list" where
  "searchResults s = (case searchCache s (searchKey s) of None \<Rightarrow> [] | Some rs \<Rightarrow> rs)"

definition searchQueryFn ::
  "api_error + chat_reply \<Rightarrow> app \<Rightarrow> (api_error + search_result list) \<times> app" where
  "searchQueryFn searchResponse s =
     (if trim (searchQuery s) = [] \<or> \<not> truthy (currentId s) then (Inr [], s)
      else
        (let s1 = call (POST (js ''/chat/'')
                          (SearchBody (searchQuery s) (orElse (currentId s) []))) s in
         case searchResponse of
           Inl error \<Rightarrow> (Inl error, s1)
         | Inr data \<Rightarrow>
             (Inr (case search_results data of None \<Rightarrow> [] | Some rs \<Rightarrow> rs), s1)))"

definition runSearch :: "api_error + chat_reply \<Rightarrow> app \<Rightarrow> app" where
  "runSearch searchResponse s =
     (if searchEnabled s then
        (case searchQueryFn searchResponse s of
           (Inl error, s1) \<Rightarrow> s1
         | (Inr rs, s1) \<Rightarrow> s1\<lparr>searchCache := (searchCache s1)(searchKey s \<mapsto> rs)\<rparr>)
      else s)"

section \<open>Reachable states\<close>

text \<open>
  The states the client can be in: the state at start, with any contents of the
  storage, and every state an operation, a state setter, an effect or a run of the
  search query leads to from a reachable state, whatever the server answers.
\<close>

inductive reachable :: "app \<Rightarrow> bool" where
  start: "reachable (initial storage)"
| initAuth: "reachable s \<Longrightarrow> reachable (initAuth jwtDecode s)"
| login: "reachable s \<Longrightarrow> reachable (snd (login username' password tokenResponse profileResponse s))"
| register: "reachable s \<Longrightarrow> reachable (snd (register email' username' password registerResponse s))"
| logout: "reachable s \<Longrightarrow> reachable (logout s)"
| setCurrentConversation: "reachable s \<Longrightarrow> reachable (setCurrentConversation c s)"
| setSearchQuery: "reachable s \<Longrightarrow> reachable (setSearchQuery q s)"
| createNewConversation: "reachable s \<Longrightarrow> reachable (snd (createNewConversation createResponse s))"
| deleteConversation: "reachable s \<Longrightarrow> reachable (snd (deleteConversation cid deleteResponse s))"
| sendMessage: "reachable s \<Longrightarrow> reachable (sendMessage content' chatResponse clk s)"
| loadConversation: "reachable s \<Longrightarrow> reachable (loadConversation loadResponse s)"
| runSearch: "reachable s \<Longrightarrow> reachable (runSearch searchResponse s)"

section \<open>Example inputs\<close>

definition exampleConversation :: conversation where
  "exampleConversation =
     \<lparr>id_conversation = js ''c1'', title = js ''New Conversation'', messages = [],
      createdAt = js ''2024-01-01T00:00:00.000Z'', updatedAt = js ''2024-01-01T00:00:00.000Z'',
      summary = None\<rparr>"

definition exampleClock :: clock where
  "exampleClock =
     \<lparr>now_user = 1700000000000, iso_user = js ''2023-11-14T22:13:20.000Z'',
      now_assistant = 1700000000000, iso_assistant = js ''2023-11-14T22:13:20.000Z''\<rparr>"

definition exampleReply :: "jsstring \<Rightarrow> api_error + chat_reply" where
  "exampleReply r = Inr \<lparr>response = Some r, search_results = None\<rparr>"

definition activeState :: app where
  "activeState = setCurrentConversation (Some exampleConversation) (initial Map.empty)"

definition blankIdState :: app where
  "blankIdState =
     setCurrentConversation (Some (exampleConversation\<lparr>id_conversation := []\<rparr>))
       (initial Map.empty)"

definition exampleStorage :: "jsstring \<rightharpoonup> jsstring" where
  "exampleStorage =
     [js ''access_token'' \<mapsto> js ''aaa.bbb.ccc'', js ''refresh_token'' \<mapsto> js ''rrr'']"

definition emptyTokenStorage :: "jsstring \<rightharpoonup> jsstring" where
  "emptyTokenStorage = [js ''access_token'' \<mapsto> [], js ''refresh_token'' \<mapsto> js ''rrr'']"

definition garbageStorage :: "jsstring \<rightharpoonup> jsstring" where
  "garbageStorage = [js ''access_token'' \<mapsto> js ''garbage'', js ''refresh_token'' \<mapsto> js ''rrr'']"

definition exampleClaims :: jwt_claims where
  "exampleClaims = \<lparr>user_id = 7, email_claim = js ''ann@example.org'', username_claim = js ''ann''\<rparr>"

definition exampleDecode :: "jsstring \<Rightarrow> jwt_claims option" where
  "exampleDecode token = (if token = js ''aaa.bbb.ccc'' then Some exampleClaims else None)"

definition exampleTokens :: token_pair where
  "exampleTokens = \<lparr>access = js ''aaa.bbb.ccc'', refresh = js ''rrr''\<rparr>"

definition exampleConfig :: "jsstring \<Rightarrow> config" where
  "exampleConfig u = \<lparr>url = Some u, headers = Map.empty\<rparr>"

definition messageOnlyError :: api_error where
  "messageOnlyError =
     ResponseError 400 (Some \<lparr>detail = None, message = Some (js ''Bad request'')\<rparr>)"

definition detailError :: api_error where
  "detailError =
     ResponseError 401
       (Some \<lparr>detail = Some (js ''No active account found with the given credentials''),
              message = None\<rparr>)"

definition exampleHits :: "api_error + chat_reply" where
  "exampleHits = Inr \<lparr>response = None, search_results = Some [js ''hello there'']\<rparr>"

definition searchedState :: app where
  "searchedState = runSearch exampleHits (setSearchQuery (js ''hello'') activeState)"

text \<open>The request \<open>login\<close> makes for its tokens, and the state after a login that succeeded.\<close>

definition tokenRequest :: config where
  "tokenRequest =
     \<lparr>url = Some (js ''/auth/token/''),
      headers = [js ''Content-Type'' \<mapsto> js ''application/json'']\<rparr>"

definition exampleProfile :: user where
  "exampleProfile = \<lparr>id_user = 7, email = js ''ann@example.org'', username = js ''ann''\<rparr>"

definition loggedInState :: app where
  "loggedInState =
     snd (login (js ''ann'') (js ''pw'') (Inr exampleTokens) (Inr exampleProfile)
            (initial Map.empty))"

text \<open>The request \<open>deleteConversation\<close> makes for the conversation whose id is \<open>token-1\<close>.\<close>

definition deleteRequest :: config where
  "deleteRequest = exampleConfig (js ''/chat/conversations/'' @ js ''token-1'' @ js ''/'')"

section \<open>Strings\<close>

lemma dropWhile_all_iff: "list_all P (dropWhile P xs) \<longleftrightarrow> list_all P xs"
  by (induction xs) simp_all

lemma trim_Nil_iff: "trim s = [] \<longleftrightarrow> list_all isWhiteSpace s"
proof -
  have "trim s = [] \<longleftrightarrow> list_all isWhiteSpace (dropWhile isWhiteSpace s)"
    by (simp add: trim_def dropWhile_eq_Nil_conv list_all_iff)
  then show ?thesis by (simp add: dropWhile_all_iff)
qed

section \<open>Sending a message\<close>

lemma sendMessage_blank: "trim content' = [] \<Longrightarrow> sendMessage content' chatResponse clk s = s"
  by (simp add: sendMessage_def)

lemma sendMessage_inactive:
  "currentConversation s = None \<Longrightarrow> sendMessage content' chatResponse clk s = s"
  by (simp add: sendMessage_def currentId_def truthy_def)

lemma guard_passes:
  "trim content' \<noteq> [] \<Longrightarrow> currentConversation s = Some c \<Longrightarrow> id_conversation c \<noteq> [] \<Longrightarrow>
   \<not> (trim content' = [] \<or> \<not> truthy (currentId s)) \<and> orElse (currentId s) [] = id_conversation c"
  by (simp add: currentId_def truthy_def orElse_def)

lemma sendMessage_failure:
  assumes "trim content' \<noteq> []" "currentConversation s = Some c" "id_conversation c \<noteq> []"
  shows "sendMessage content' (Inl e) clk s =
     s\<lparr>isSending := False,
       requests := requests s @ [POST (js ''/chat/'') (ChatBody (trim content') (id_conversation c))],
       toasts := toasts s @ [ToastError (js ''Failed to send message'')]\<rparr>"
  using guard_passes [OF assms]
  by (simp add: sendMessage_def call_def toast_def)

lemma sendMessage_success:
  assumes "trim content' \<noteq> []" "currentConversation s = Some c" "id_conversation c \<noteq> []"
    and "response data = Some r" "r \<noteq> []"
  shows "sendMessage content' (Inr data) clk s =
     s\<lparr>isSending := False,
       requests := requests s @ [POST (js ''/chat/'') (ChatBody (trim content') (id_conversation c))],
       currentConversation := appendReply content' r clk (Some c),
       invalidations := Suc (invalidations s)\<rparr>"
  using guard_passes [OF assms(1-3)] assms(2,4,5)
  by (simp add: sendMessage_def call_def invalidateConversations_def truthy_def orElse_def)

lemma sendMessage_silent:
  assumes "trim content' \<noteq> []" "currentConversation s = Some c" "id_conversation c \<noteq> []"
    and "\<not> truthy (response data)"
  shows "sendMessage content' (Inr data) clk s =
     s\<lparr>isSending := False,
       requests := requests s @ [POST (js ''/chat/'') (ChatBody (trim content') (id_conversation c))],
       invalidations := Suc (invalidations s)\<rparr>"
  using guard_passes [OF assms(1-3)] assms(4)
  by (simp add: sendMessage_def call_def invalidateConversations_def)

text \<open>
  C7. \<open>sendMessage\<close> does nothing on degenerate input: when the content is empty or
  consists of whitespace only, or when no conversation is active, the state afterwards
  is the state before. No call is added to the request log, the messages of the
  conversation and \<open>isSending\<close> are as they were.
\<close>

theorem sendMessage_noop:
  "content' = [] \<or> list_all isWhiteSpace content' \<or> currentConversation s = None \<Longrightarrow>
   sendMessage content' chatResponse clk s = s"
proof -
  assume h: "content' = [] \<or> list_all isWhiteSpace content' \<or> currentConversation s = None"
  have "list_all isWhiteSpace content' \<or> currentConversation s = None"
    using h by fastforce
  then have "trim content' = [] \<or> currentConversation s = None"
    by (simp add: trim_Nil_iff)
  then show ?thesis
    using sendMessage_blank sendMessage_inactive by blast
qed

theorem sendMessage_noop_witness:
  "sendMessage [] (exampleReply (js ''world'')) exampleClock activeState = activeState \<and>
   sendMessage (js ''   '') (exampleReply (js ''world'')) exampleClock activeState = activeState \<and>
   sendMessage (js ''x'') (exampleReply (js ''world'')) exampleClock (initial Map.empty) =
     initial Map.empty \<and>
   currentConversation activeState = Some exampleConversation"
proof -
  have ws: "list_all isWhiteSpace (js ''   '')"
    by (simp add: js_def isWhiteSpace_def)
  have none: "currentConversation (initial Map.empty) = None"
    by (simp add: initial_def)
  have act: "currentConversation activeState = Some exampleConversation"
    by (simp add: activeState_def setCurrentConversation_def)
  have a: "sendMessage [] (exampleReply (js ''world'')) exampleClock activeState = activeState"
    by (rule sendMessage_noop) simp
  have b: "sendMessage (js ''   '') (exampleReply (js ''world'')) exampleClock activeState =
     activeState"
    by (rule sendMessage_noop) (simp add: ws)
  have c: "sendMessage (js ''x'') (exampleReply (js ''world'')) exampleClock (initial Map.empty) =
     initial Map.empty"
    by (rule sendMessage_noop) (simp add: none)
  show ?thesis using a b c act by simp
qed

text \<open>
  C1 (as amended). For a send with non-whitespace content against an active conversation
  whose id is not empty: when the request succeeds and the reply text \<open>r\<close> is not
  empty, exactly two messages are appended to the conversation's messages, first one of
  role user with the trimmed content, then one of role assistant with content \<open>r\<close>;
  their timestamps are the client's clock reads and their ids are the decimal
  renderings of \<open>Date.now()\<close> and of \<open>Date.now() + 1\<close>. When the request fails, no
  message is appended. \<open>isSending\<close> is false afterwards in both cases.
\<close>

theorem sendMessage_appends_pair:
  "trim content' \<noteq> [] \<Longrightarrow> currentConversation s = Some c \<Longrightarrow> id_conversation c \<noteq> [] \<Longrightarrow>
   (response data = Some r \<and> r \<noteq> [] \<longrightarrow>
      contextMessages (sendMessage content' (Inr data) clk s) =
        contextMessages s @
          [\<lparr>id_message = toString (now_user clk), content = trim content',
            role = RoleUser, timestamp = iso_user clk\<rparr>,
           \<lparr>id_message = toString (now_assistant clk + 1), content = r,
            role = RoleAssistant, timestamp = iso_assistant clk\<rparr>] \<and>
      isSending (sendMessage content' (Inr data) clk s) = False) \<and>
   contextMessages (sendMessage content' (Inl e) clk s) = contextMessages s \<and>
   isSending (sendMessage content' (Inl e) clk s) = False"
  by (simp add: sendMessage_failure sendMessage_success contextMessages_def appendReply_def)

theorem sendMessage_appends_pair_witness:
  "contextMessages (sendMessage (js ''hello'') (exampleReply (js ''world'')) exampleClock activeState) =
     [\<lparr>id_message = js ''1700000000000'', content = js ''hello'',
       role = RoleUser, timestamp = js ''2023-11-14T22:13:20.000Z''\<rparr>,
      \<lparr>id_message = js ''1700000000001'', content = js ''world'',
       role = RoleAssistant, timestamp = js ''2023-11-14T22:13:20.000Z''\<rparr>] \<and>
   isSending (sendMessage (js ''hello'') (exampleReply (js ''world'')) exampleClock activeState) = False \<and>
   contextMessages (sendMessage (js ''hello'') (Inl NoResponse) exampleClock activeState) = [] \<and>
   isSending (sendMessage (js ''hello'') (Inl NoResponse) exampleClock activeState) = False"
proof -
  have t: "trim (js ''hello'') = js ''hello''"
    by (simp add: trim_def js_def isWhiteSpace_def)
  have ne: "trim (js ''hello'') \<noteq> []"
    by (simp add: t) (simp add: js_def)
  have act: "currentConversation activeState = Some exampleConversation"
    by (simp add: activeState_def setCurrentConversation_def)
  have cid: "id_conversation exampleConversation \<noteq> []"
    by (simp add: exampleConversation_def js_def)
  have r: "response \<lparr>response = Some (js ''world''), search_results = None\<rparr> = Some (js ''world'') \<and>
      js ''world'' \<noteq> []"
    by (simp add: js_def)
  have old: "contextMessages activeState = []"
    by (simp add: contextMessages_def act exampleConversation_def)
  have ids: "toString 1700000000000 = js ''1700000000000''"
    "toString 1700000000001 = js ''1700000000001''"
    by (simp_all add: toString_def js_def)
  show ?thesis
    using sendMessage_appends_pair [OF ne act cid,
        of "\<lparr>response = Some (js ''world''), search_results = None\<rparr>" "js ''world''"
          exampleClock NoResponse] r
    by (simp add: exampleReply_def old ids t exampleClock_def)
qed

text \<open>
  The claim as first stated fails at three inputs. A successful send whose reply text is
  the empty string appends nothing. A send against an active conversation whose id is
  the empty string does nothing at all. And the ids are not unique within the
  conversation: two sends that read the same clock value give their messages the same
  ids.
\<close>

theorem sendMessage_appends_pair_counterexample:
  "contextMessages (sendMessage (js ''hello'') (exampleReply []) exampleClock activeState) =
     contextMessages activeState \<and>
   sendMessage (js ''hello'') (exampleReply (js ''world'')) exampleClock blankIdState =
     blankIdState \<and>
   \<not> distinct (map id_message (contextMessages
       (sendMessage (js ''hello'') (exampleReply (js ''world'')) exampleClock
         (sendMessage (js ''hello'') (exampleReply (js ''world'')) exampleClock activeState))))"
proof -
  have t: "trim (js ''hello'') = js ''hello''"
    by (simp add: trim_def js_def isWhiteSpace_def)
  have ne: "trim (js ''hello'') \<noteq> []"
    by (simp add: t) (simp add: js_def)
  have act: "currentConversation activeState = Some exampleConversation"
    by (simp add: activeState_def setCurrentConversation_def)
  have cid: "id_conversation exampleConversation \<noteq> []"
    by (simp add: exampleConversation_def js_def)
  have silent: "sendMessage (js ''hello'') (exampleReply []) exampleClock activeState =
      activeState\<lparr>isSending := False,
        requests := requests activeState @
          [POST (js ''/chat/'') (ChatBody (trim (js ''hello'')) (id_conversation exampleConversation))],
        invalidations := Suc (invalidations activeState)\<rparr>"
    unfolding exampleReply_def
    by (rule sendMessage_silent [OF ne act cid]) (simp add: truthy_def)
  have w: "response \<lparr>response = Some (js ''world''), search_results = None\<rparr> = Some (js ''world'')"
    "js ''world'' \<noteq> []"
    by (simp_all add: js_def)
  define s1 where "s1 = sendMessage (js ''hello'') (exampleReply (js ''world'')) exampleClock activeState"
  have s1: "s1 = activeState\<lparr>isSending := False,
        requests := requests activeState @
          [POST (js ''/chat/'') (ChatBody (trim (js ''hello'')) (id_conversation exampleConversation))],
        currentConversation := appendReply (js ''hello'') (js ''world'') exampleClock (Some exampleConversation),
        invalidations := Suc (invalidations activeState)\<rparr>"
    unfolding s1_def exampleReply_def
    by (rule sendMessage_success [OF ne act cid w])
  define c1 where "c1 = exampleConversation\<lparr>messages := messages exampleConversation @
            [\<lparr>id_message = toString (now_user exampleClock), content = trim (js ''hello''),
              role = RoleUser, timestamp = iso_user exampleClock\<rparr>,
             \<lparr>id_message = toString (now_assistant exampleClock + 1), content = js ''world'',
              role = RoleAssistant, timestamp = iso_assistant exampleClock\<rparr>]\<rparr>"
  have cur1: "currentConversation s1 = Some c1"
    by (simp add: s1 c1_def appendReply_def)
  have cid1: "id_conversation c1 \<noteq> []"
    using cid by (simp add: c1_def)
  have s2: "contextMessages (sendMessage (js ''hello'') (exampleReply (js ''world'')) exampleClock s1) =
      messages c1 @
            [\<lparr>id_message = toString (now_user exampleClock), content = trim (js ''hello''),
              role = RoleUser, timestamp = iso_user exampleClock\<rparr>,
             \<lparr>id_message = toString (now_assistant exampleClock + 1), content = js ''world'',
              role = RoleAssistant, timestamp = iso_assistant exampleClock\<rparr>]"
    unfolding exampleReply_def
    by (simp add: sendMessage_success [OF ne cur1 cid1 w] contextMessages_def appendReply_def)
  have dup: "\<not> distinct (map id_message (contextMessages
       (sendMessage (js ''hello'') (exampleReply (js ''world'')) exampleClock s1)))"
    by (simp add: s2 c1_def)
  have a: "contextMessages (sendMessage (js ''hello'') (exampleReply []) exampleClock activeState) =
     contextMessages activeState"
    by (simp add: silent contextMessages_def)
  have b: "sendMessage (js ''hello'') (exampleReply (js ''world'')) exampleClock blankIdState =
     blankIdState"
    by (simp add: sendMessage_def blankIdState_def setCurrentConversation_def currentId_def
        truthy_def)
  show ?thesis using a b dup by (simp add: s1_def)
qed

text \<open>
  C10. When the send request succeeds and the \<open>response\<close> property of the body is
  absent or the empty string, no message is appended to the active conversation, no
  notification is raised, the conversation collection is still invalidated, and
  \<open>isSending\<close> is cleared.
\<close>

theorem sendMessage_without_reply_text:
  "trim content' \<noteq> [] \<Longrightarrow> currentConversation s = Some c \<Longrightarrow> id_conversation c \<noteq> [] \<Longrightarrow>
   response data = None \<or> response data = Some [] \<Longrightarrow>
   contextMessages (sendMessage content' (Inr data) clk s) = contextMessages s \<and>
   currentConversation (sendMessage content' (Inr data) clk s) = currentConversation s \<and>
   toasts (sendMessage content' (Inr data) clk s) = toasts s \<and>
   invalidations (sendMessage content' (Inr data) clk s) = Suc (invalidations s) \<and>
   isSending (sendMessage content' (Inr data) clk s) = False"
proof -
  assume g: "trim content' \<noteq> []" "currentConversation s = Some c" "id_conversation c \<noteq> []"
    and r: "response data = None \<or> response data = Some []"
  from r have "\<not> truthy (response data)"
    by (auto simp: truthy_def)
  then show ?thesis
    by (simp add: sendMessage_silent [OF g] contextMessages_def)
qed

theorem sendMessage_without_reply_text_witness:
  "contextMessages (sendMessage (js ''hello'') (exampleReply []) exampleClock activeState) = [] \<and>
   currentConversation (sendMessage (js ''hello'') (exampleReply []) exampleClock activeState) =
     Some exampleConversation \<and>
   toasts (sendMessage (js ''hello'') (exampleReply []) exampleClock activeState) = [] \<and>
   invalidations (sendMessage (js ''hello'') (exampleReply []) exampleClock activeState) = 1 \<and>
   isSending (sendMessage (js ''hello'') (exampleReply []) exampleClock activeState) = False \<and>
   contextMessages (sendMessage (js ''hello'') (Inr \<lparr>response = None, search_results = None\<rparr>)
     exampleClock activeState) = []"
proof -
  have ne: "trim (js ''hello'') \<noteq> []"
    by (simp add: trim_def js_def isWhiteSpace_def)
  have act: "currentConversation activeState = Some exampleConversation"
    by (simp add: activeState_def setCurrentConversation_def)
  have cid: "id_conversation exampleConversation \<noteq> []"
    by (simp add: exampleConversation_def js_def)
  have old: "contextMessages activeState = []" "toasts activeState = []"
    "invalidations activeState = 0"
    by (simp_all add: contextMessages_def act exampleConversation_def)
      (simp_all add: activeState_def setCurrentConversation_def initial_def)
  have e: "response \<lparr>response = Some [], search_results = None\<rparr> = None \<or>
      response \<lparr>response = Some [], search_results = None\<rparr> = Some []"
    by simp
  have n: "response \<lparr>response = None, search_results = None\<rparr> = None \<or>
      response \<lparr>response = None, search_results = None\<rparr> = Some []"
    by simp
  show ?thesis
    using sendMessage_without_reply_text [OF ne act cid e, of exampleClock]
      sendMessage_without_reply_text [OF ne act cid n, of exampleClock]
    by (simp add: exampleReply_def old act)
qed

section \<open>Creating and deleting conversations\<close>

lemma createNewConversation_failure:
  "createNewConversation (Inl e) s =
     (Inl e, call (POST (js ''/chat/conversations/'') (TitleBody (js ''New Conversation''))) s)"
  by (simp add: createNewConversation_def)

lemma createNewConversation_success:
  "createNewConversation (Inr data) s =
     (Inr data, invalidateConversations
        (call (POST (js ''/chat/conversations/'') (TitleBody (js ''New Conversation''))) s))"
  by (simp add: createNewConversation_def)

lemma deleteConversation_failure:
  "deleteConversation cid (Inl e) s =
     (Inl e, call (DELETE (js ''/chat/conversations/'' @ cid @ js ''/'')) s)"
  by (simp add: deleteConversation_def)

lemma deleteConversation_success:
  "deleteConversation cid (Inr u) s =
     (Inr (), invalidateConversations
        ((if currentId s = Some cid then setCurrentConversation None else (\<lambda>x. x))
           (call (DELETE (js ''/chat/conversations/'' @ cid @ js ''/'')) s)))"
  by (simp add: deleteConversation_def)

lemma call_fields:
  "user (call r s) = user s" "isLoading (call r s) = isLoading s"
  "currentConversation (call r s) = currentConversation s"
  "searchQuery (call r s) = searchQuery s" "isSending (call r s) = isSending s"
  "searchCache (call r s) = searchCache s" "localStorage (call r s) = localStorage s"
  "defaultAuthorization (call r s) = defaultAuthorization s"
  "requests (call r s) = requests s @ [r]" "toasts (call r s) = toasts s"
  "invalidations (call r s) = invalidations s"
  by (simp_all add: call_def)

lemma toast_fields:
  "user (toast t s) = user s" "isLoading (toast t s) = isLoading s"
  "currentConversation (toast t s) = currentConversation s"
  "searchQuery (toast t s) = searchQuery s" "isSending (toast t s) = isSending s"
  "searchCache (toast t s) = searchCache s" "localStorage (toast t s) = localStorage s"
  "defaultAuthorization (toast t s) = defaultAuthorization s"
  "requests (toast t s) = requests s" "toasts (toast t s) = toasts s @ [t]"
  "invalidations (toast t s) = invalidations s"
  by (simp_all add: toast_def)

lemma invalidateConversations_fields:
  "user (invalidateConversations s) = user s"
  "isLoading (invalidateConversations s) = isLoading s"
  "currentConversation (invalidateConversations s) = currentConversation s"
  "searchQuery (invalidateConversations s) = searchQuery s"
  "isSending (invalidateConversations s) = isSending s"
  "searchCache (invalidateConversations s) = searchCache s"
  "localStorage (invalidateConversations s) = localStorage s"
  "defaultAuthorization (invalidateConversations s) = defaultAuthorization s"
  "requests (invalidateConversations s) = requests s"
  "toasts (invalidateConversations s) = toasts s"
  "invalidations (invalidateConversations s) = Suc (invalidations s)"
  by (simp_all add: invalidateConversations_def)

text \<open>
  C4 (as amended). When the delete request succeeds: if the id is the active
  conversation's id the active reference is null afterwards, otherwise it is kept, and
  the conversation collection is invalidated once. When the delete request fails, the
  failure is passed on to the caller, the active reference is kept and the collection
  is not invalidated.
\<close>

theorem deleteConversation_clears_active:
  "(currentId s = Some cid \<longrightarrow>
      currentConversation (snd (deleteConversation cid (Inr ()) s)) = None) \<and>
   (currentId s \<noteq> Some cid \<longrightarrow>
      currentConversation (snd (deleteConversation cid (Inr ()) s)) = currentConversation s) \<and>
   fst (deleteConversation cid (Inr ()) s) = Inr () \<and>
   invalidations (snd (deleteConversation cid (Inr ()) s)) = Suc (invalidations s) \<and>
   fst (deleteConversation cid (Inl e) s) = Inl e \<and>
   currentConversation (snd (deleteConversation cid (Inl e) s)) = currentConversation s \<and>
   invalidations (snd (deleteConversation cid (Inl e) s)) = invalidations s"
  by (simp add: deleteConversation_failure deleteConversation_success call_fields
      invalidateConversations_fields setCurrentConversation_def)

theorem deleteConversation_clears_active_witness:
  "currentId activeState = Some (js ''c1'') \<and>
   currentConversation (snd (deleteConversation (js ''c1'') (Inr ()) activeState)) = None \<and>
   currentId activeState \<noteq> Some (js ''c2'') \<and>
   currentConversation (snd (deleteConversation (js ''c2'') (Inr ()) activeState)) =
     Some exampleConversation \<and>
   invalidations (snd (deleteConversation (js ''c1'') (Inr ()) activeState)) = 1"
proof -
  have act: "currentConversation activeState = Some exampleConversation"
    by (simp add: activeState_def setCurrentConversation_def)
  have a: "currentId activeState = Some (js ''c1'')"
    by (simp add: currentId_def act exampleConversation_def)
  have b: "currentId activeState \<noteq> Some (js ''c2'')"
    by (simp add: a) (simp add: js_def)
  have i: "invalidations activeState = 0"
    by (simp add: activeState_def setCurrentConversation_def initial_def)
  show ?thesis
    using deleteConversation_clears_active [of activeState "js ''c1''" NoResponse]
      deleteConversation_clears_active [of activeState "js ''c2''" NoResponse] a b
    by (simp add: act i)
qed

text \<open>
  The claim as first stated fails when the server rejects the request: the active
  conversation is the one deleted, yet it stays active and nothing is invalidated.
\<close>

theorem deleteConversation_clears_active_counterexample:
  "currentId activeState = Some (js ''c1'') \<and>
   currentConversation (snd (deleteConversation (js ''c1'') (Inl NoResponse) activeState)) =
     Some exampleConversation \<and>
   invalidations (snd (deleteConversation (js ''c1'') (Inl NoResponse) activeState)) =
     invalidations activeState"
proof -
  have act: "currentConversation activeState = Some exampleConversation"
    by (simp add: activeState_def setCurrentConversation_def)
  have a: "currentId activeState = Some (js ''c1'')"
    by (simp add: currentId_def act exampleConversation_def)
  show ?thesis
    by (simp add: a deleteConversation_failure call_fields act)
qed

section \<open>Session: logout and initialization\<close>

lemma key_neq: "js ''access_token'' \<noteq> js ''refresh_token''"
  by (simp add: js_def)

lemma logout_fields:
  "user (logout s) = None" "isLoading (logout s) = isLoading s"
  "currentConversation (logout s) = currentConversation s"
  "searchQuery (logout s) = searchQuery s" "isSending (logout s) = isSending s"
  "searchCache (logout s) = searchCache s"
  "localStorage (logout s) =
     (localStorage s)(js ''access_token'' := None, js ''refresh_token'' := None)"
  "defaultAuthorization (logout s) = defaultAuthorization s"
  "requests (logout s) = requests s"
  "toasts (logout s) = toasts s @ [ToastSuccess (js ''Logged out successfully'')]"
  "invalidations (logout s) = invalidations s"
  by (simp_all add: logout_def toast_def removeItem_def)

text \<open>
  C9. \<open>logout\<close> in any state leaves no access token and no refresh token in storage
  and no user, and makes no call on the HTTP client. Running it a second time changes
  neither the user nor the storage. In a state that is already anonymous (no user, no
  stored token) it changes nothing but the list of notifications, to which it adds its
  message.
\<close>

theorem logout_local_idempotent:
  "user (logout s) = None \<and>
   getItem (localStorage (logout s)) (js ''access_token'') = None \<and>
   getItem (localStorage (logout s)) (js ''refresh_token'') = None \<and>
   requests (logout s) = requests s \<and>
   user (logout (logout s)) = user (logout s) \<and>
   localStorage (logout (logout s)) = localStorage (logout s) \<and>
   (user s = None \<and> getItem (localStorage s) (js ''access_token'') = None \<and>
    getItem (localStorage s) (js ''refresh_token'') = None \<longrightarrow>
      logout s = s\<lparr>toasts := toasts s @ [ToastSuccess (js ''Logged out successfully'')]\<rparr>)"
proof -
  have a: "user (logout s) = None \<and>
   getItem (localStorage (logout s)) (js ''access_token'') = None \<and>
   getItem (localStorage (logout s)) (js ''refresh_token'') = None \<and>
   requests (logout s) = requests s"
    by (simp add: logout_fields getItem_def)
  have b: "user (logout (logout s)) = user (logout s) \<and>
   localStorage (logout (logout s)) = localStorage (logout s)"
    by (simp add: logout_fields)
  have c: "logout s = s\<lparr>toasts := toasts s @ [ToastSuccess (js ''Logged out successfully'')]\<rparr>"
    if "user s = None" "getItem (localStorage s) (js ''access_token'') = None"
      "getItem (localStorage s) (js ''refresh_token'') = None"
  proof -
    have "(localStorage s)(js ''access_token'' := None, js ''refresh_token'' := None) = localStorage s"
      using that by (simp add: getItem_def fun_upd_idem)
    then show ?thesis
      using that(1) by (intro app.equality) (simp_all add: logout_fields)
  qed
  show ?thesis using a b c by blast
qed

theorem logout_local_idempotent_witness:
  "user (logout (initial exampleStorage)) = None \<and>
   getItem (localStorage (logout (initial exampleStorage))) (js ''access_token'') = None \<and>
   getItem (localStorage (logout (initial exampleStorage))) (js ''refresh_token'') = None \<and>
   requests (logout (initial exampleStorage)) = [] \<and>
   getItem exampleStorage (js ''access_token'') = Some (js ''aaa.bbb.ccc'') \<and>
   logout (initial Map.empty) =
     (initial Map.empty)\<lparr>toasts := [ToastSuccess (js ''Logged out successfully'')]\<rparr>"
proof -
  have i: "user (initial Map.empty) = None \<and>
      getItem (localStorage (initial Map.empty)) (js ''access_token'') = None \<and>
      getItem (localStorage (initial Map.empty)) (js ''refresh_token'') = None"
    by (simp add: initial_def getItem_def)
  have t: "toasts (initial Map.empty) = []" "requests (initial exampleStorage) = []"
    by (simp_all add: initial_def)
  have g: "getItem exampleStorage (js ''access_token'') = Some (js ''aaa.bbb.ccc'')"
    using key_neq by (simp add: getItem_def exampleStorage_def)
  show ?thesis
    using logout_local_idempotent [of "initial exampleStorage"]
      logout_local_idempotent [of "initial Map.empty"] i g
    by (simp add: t)
qed

lemma initAuth_decoded:
  assumes "getItem (localStorage s) (js ''access_token'') = Some token" "token \<noteq> []"
    and "jwtDecode token = Some d"
  shows "initAuth jwtDecode s =
     s\<lparr>user := Some \<lparr>id_user = user_id d, email = email_claim d, username = username_claim d\<rparr>,
       isLoading := False\<rparr>"
  using assms by (simp add: initAuth_def)

lemma initAuth_undecodable:
  assumes "getItem (localStorage s) (js ''access_token'') = Some token" "token \<noteq> []"
    and "jwtDecode token = None"
  shows "initAuth jwtDecode s =
     s\<lparr>localStorage :=
         removeItem (removeItem (localStorage s) (js ''access_token'')) (js ''refresh_token''),
       isLoading := False\<rparr>"
  using assms by (simp add: initAuth_def)

lemma initAuth_no_token:
  assumes "getItem (localStorage s) (js ''access_token'') = None \<or>
     getItem (localStorage s) (js ''access_token'') = Some []"
  shows "initAuth jwtDecode s = s\<lparr>isLoading := False\<rparr>"
  using assms by (auto simp: initAuth_def)

text \<open>
  C5 (as amended). Initialization from a storage that holds a non-empty access token:
  when the token decodes, the user's id, email and username are the claims \<open>user_id\<close>,
  \<open>email\<close> and \<open>username\<close> of the decoded payload; when decoding fails, there is
  no user and neither token is in storage afterwards. Loading is over in both cases.
\<close>

theorem initAuth_round_trip:
  "getItem storage (js ''access_token'') = Some token \<Longrightarrow> token \<noteq> [] \<Longrightarrow>
   (jwtDecode token = Some d \<longrightarrow>
      user (initAuth jwtDecode (initial storage)) =
        Some \<lparr>id_user = user_id d, email = email_claim d, username = username_claim d\<rparr>) \<and>
   (jwtDecode token = None \<longrightarrow>
      user (initAuth jwtDecode (initial storage)) = None \<and>
      getItem (localStorage (initAuth jwtDecode (initial storage))) (js ''access_token'') = None \<and>
      getItem (localStorage (initAuth jwtDecode (initial storage))) (js ''refresh_token'') = None) \<and>
   isLoading (initAuth jwtDecode (initial storage)) = False"
proof -
  assume t: "getItem storage (js ''access_token'') = Some token" "token \<noteq> []"
  have t': "getItem (localStorage (initial storage)) (js ''access_token'') = Some token"
    using t(1) by (simp add: initial_def)
  have u: "user (initial storage) = None"
    by (simp add: initial_def)
  show ?thesis
  proof (cases "jwtDecode token")
    case None
    show ?thesis
      by (simp add: None initAuth_undecodable [where jwtDecode = jwtDecode, OF t' t(2) None] u removeItem_def getItem_def)
  next
    case (Some d')
    show ?thesis
      by (simp add: Some initAuth_decoded [where jwtDecode = jwtDecode, OF t' t(2) Some])
  qed
qed

theorem initAuth_round_trip_witness:
  "user (initAuth exampleDecode (initial exampleStorage)) =
     Some \<lparr>id_user = 7, email = js ''ann@example.org'', username = js ''ann''\<rparr> \<and>
   isLoading (initAuth exampleDecode (initial exampleStorage)) = False \<and>
   user (initAuth exampleDecode (initial garbageStorage)) = None \<and>
   getItem (localStorage (initAuth exampleDecode (initial garbageStorage))) (js ''access_token'') = None \<and>
   getItem (localStorage (initAuth exampleDecode (initial garbageStorage))) (js ''refresh_token'') = None \<and>
   getItem garbageStorage (js ''refresh_token'') = Some (js ''rrr'')"
proof -
  have g: "getItem exampleStorage (js ''access_token'') = Some (js ''aaa.bbb.ccc'')"
    using key_neq by (simp add: getItem_def exampleStorage_def)
  have ne: "js ''aaa.bbb.ccc'' \<noteq> []" "js ''garbage'' \<noteq> []"
    by (simp_all add: js_def)
  have d: "exampleDecode (js ''aaa.bbb.ccc'') = Some exampleClaims"
    by (simp add: exampleDecode_def)
  have g2: "getItem garbageStorage (js ''access_token'') = Some (js ''garbage'')"
    using key_neq by (simp add: getItem_def garbageStorage_def)
  have d2: "exampleDecode (js ''garbage'') = None"
    by (simp add: exampleDecode_def) (simp add: js_def)
  have r: "getItem garbageStorage (js ''refresh_token'') = Some (js ''rrr'')"
    by (simp add: getItem_def garbageStorage_def)
  show ?thesis
    using initAuth_round_trip [OF g ne(1), of exampleDecode exampleClaims]
      initAuth_round_trip [OF g2 ne(2), of exampleDecode exampleClaims] d d2 r
    by (simp add: exampleClaims_def)
qed

text \<open>
  The claim as first stated covers every stored string. The empty string does not
  decode, but the guard \<open>if (token)\<close> treats it as no token: both stored items stay.
\<close>

theorem initAuth_round_trip_counterexample:
  "getItem emptyTokenStorage (js ''access_token'') = Some [] \<and>
   exampleDecode [] = None \<and>
   getItem (localStorage (initAuth exampleDecode (initial emptyTokenStorage))) (js ''access_token'') =
     Some [] \<and>
   getItem (localStorage (initAuth exampleDecode (initial emptyTokenStorage))) (js ''refresh_token'') =
     Some (js ''rrr'')"
proof -
  have g: "getItem emptyTokenStorage (js ''access_token'') = Some []"
    using key_neq by (simp add: getItem_def emptyTokenStorage_def)
  have r: "getItem emptyTokenStorage (js ''refresh_token'') = Some (js ''rrr'')"
    by (simp add: getItem_def emptyTokenStorage_def)
  have d: "exampleDecode [] = None"
    by (simp add: exampleDecode_def) (simp add: js_def)
  have "getItem (localStorage (initial emptyTokenStorage)) (js ''access_token'') = None \<or>
     getItem (localStorage (initial emptyTokenStorage)) (js ''access_token'') = Some []"
    using g by (simp add: initial_def)
  then have "initAuth exampleDecode (initial emptyTokenStorage) =
      (initial emptyTokenStorage)\<lparr>isLoading := False\<rparr>"
    by (rule initAuth_no_token)
  then show ?thesis
    using g r d by (simp add: initial_def)
qed

section \<open>Session: login and register\<close>

lemma login_token_failure:
  "login username' password (Inl e) profileResponse s =
     (False, toast (ToastError (failureMessage e loginFallback))
        (call (POST (js ''/auth/token/'') (TokenBody username' password)) s))"
  by (simp add: login_def)

lemma login_profile_failure:
  "login username' password (Inr data) (Inl e) s =
     (False, toast (ToastError (failureMessage e loginFallback))
        (call (GET (js ''/api/users/me/''))
           (call (POST (js ''/auth/token/'') (TokenBody username' password)) s
              \<lparr>localStorage :=
                 setItem (setItem (localStorage s) (js ''access_token'') (access data))
                   (js ''refresh_token'') (refresh data),
               defaultAuthorization := Some (js ''Bearer '' @ access data)\<rparr>)))"
  by (simp add: login_def call_def)

lemma register_failure:
  "register email' username' password (Inl e) s =
     (False, toast (ToastError (failureMessage e registerFallback))
        (call (POST (js ''/api/users/register/'')
                 (RegisterBody email' username' password password)) s))"
  by (simp add: register_def)

lemma failureMessage_cases:
  "(errorDetail e = Some d \<and> d \<noteq> [] \<longrightarrow> failureMessage e fallback = d) \<and>
   (\<not> truthy (errorDetail e) \<and> errorMessage e = Some m \<and> m \<noteq> [] \<longrightarrow>
      failureMessage e fallback = m) \<and>
   (\<not> truthy (errorDetail e) \<and> \<not> truthy (errorMessage e) \<longrightarrow>
      failureMessage e fallback = fallback)"
  by (auto simp: failureMessage_def orElse_def truthy_def split: option.splits)

text \<open>
  C3 (as amended). A login that fails, at the token request or at the profile request,
  returns false and leaves the user as it was. The message it reports is the
  \<open>detail\<close> of the error's payload when that is a non-empty string, else the
  \<open>message\<close> of the payload when that is a non-empty string, else the generic login
  message. When the token request is what fails, the storage and the default
  \<open>Authorization\<close> header are as they were.
\<close>

theorem login_failure_keeps_session:
  "fst (login username' password (Inl e) profileResponse s) = False \<and>
   user (snd (login username' password (Inl e) profileResponse s)) = user s \<and>
   localStorage (snd (login username' password (Inl e) profileResponse s)) = localStorage s \<and>
   defaultAuthorization (snd (login username' password (Inl e) profileResponse s)) =
     defaultAuthorization s \<and>
   toasts (snd (login username' password (Inl e) profileResponse s)) =
     toasts s @ [ToastError (failureMessage e loginFallback)] \<and>
   fst (login username' password (Inr data) (Inl e) s) = False \<and>
   user (snd (login username' password (Inr data) (Inl e) s)) = user s \<and>
   toasts (snd (login username' password (Inr data) (Inl e) s)) =
     toasts s @ [ToastError (failureMessage e loginFallback)] \<and>
   (errorDetail e = Some d \<and> d \<noteq> [] \<longrightarrow> failureMessage e loginFallback = d) \<and>
   (\<not> truthy (errorDetail e) \<and> errorMessage e = Some m \<and> m \<noteq> [] \<longrightarrow>
      failureMessage e loginFallback = m) \<and>
   (\<not> truthy (errorDetail e) \<and> \<not> truthy (errorMessage e) \<longrightarrow>
      failureMessage e loginFallback = loginFallback)"
proof -
  have a: "fst (login username' password (Inl e) profileResponse s) = False \<and>
   user (snd (login username' password (Inl e) profileResponse s)) = user s \<and>
   localStorage (snd (login username' password (Inl e) profileResponse s)) = localStorage s \<and>
   defaultAuthorization (snd (login username' password (Inl e) profileResponse s)) =
     defaultAuthorization s \<and>
   toasts (snd (login username' password (Inl e) profileResponse s)) =
     toasts s @ [ToastError (failureMessage e loginFallback)]"
    by (simp add: login_token_failure toast_fields call_fields)
  have b: "fst (login username' password (Inr data) (Inl e) s) = False \<and>
   user (snd (login username' password (Inr data) (Inl e) s)) = user s \<and>
   toasts (snd (login username' password (Inr data) (Inl e) s)) =
     toasts s @ [ToastError (failureMessage e loginFallback)]"
    by (simp add: login_profile_failure toast_fields call_fields)
  show ?thesis
    using a b failureMessage_cases [of e d loginFallback m] by blast
qed

theorem login_failure_keeps_session_witness:
  "fst (login (js ''ann'') (js ''pw'') (Inl detailError) (Inl NoResponse) (initial Map.empty)) = False \<and>
   user (snd (login (js ''ann'') (js ''pw'') (Inl detailError) (Inl NoResponse) (initial Map.empty))) =
     None \<and>
   toasts (snd (login (js ''ann'') (js ''pw'') (Inl detailError) (Inl NoResponse) (initial Map.empty))) =
     [ToastError (js ''No active account found with the given credentials'')] \<and>
   toasts (snd (login (js ''ann'') (js ''pw'') (Inl messageOnlyError) (Inl NoResponse) (initial Map.empty))) =
     [ToastError (js ''Bad request'')] \<and>
   toasts (snd (login (js ''ann'') (js ''pw'') (Inl NoResponse) (Inl NoResponse) (initial Map.empty))) =
     [ToastError loginFallback]"
proof -
  have d: "errorDetail detailError =
      Some (js ''No active account found with the given credentials'') \<and>
      js ''No active account found with the given credentials'' \<noteq> []"
    by (simp add: errorDetail_def detailError_def js_def)
  have m: "\<not> truthy (errorDetail messageOnlyError) \<and>
      errorMessage messageOnlyError = Some (js ''Bad request'') \<and> js ''Bad request'' \<noteq> []"
    by (simp add: errorDetail_def errorMessage_def messageOnlyError_def truthy_def js_def)
  have n: "\<not> truthy (errorDetail NoResponse) \<and> \<not> truthy (errorMessage NoResponse)"
    by (simp add: errorDetail_def errorMessage_def truthy_def)
  have i: "user (initial Map.empty) = None" "toasts (initial Map.empty) = []"
    by (simp_all add: initial_def)
  show ?thesis
    using login_failure_keeps_session [of "js ''ann''" "js ''pw''" detailError "Inl NoResponse"
        "initial Map.empty" exampleTokens "js ''No active account found with the given credentials''"
        "[]"]
      login_failure_keeps_session [of "js ''ann''" "js ''pw''" messageOnlyError "Inl NoResponse"
        "initial Map.empty" exampleTokens "[]" "js ''Bad request''"]
      login_failure_keeps_session [of "js ''ann''" "js ''pw''" NoResponse "Inl NoResponse"
        "initial Map.empty" exampleTokens "[]" "[]"]
      d m n
    by (simp add: i)
qed

text \<open>
  The claim as first stated fails at two inputs. When the token request succeeds and
  the profile request fails, login returns false with both tokens newly stored. When
  the error's payload has a \<open>message\<close> and no \<open>detail\<close>, the message reported is
  that \<open>message\<close>, not the generic one.
\<close>

theorem login_failure_keeps_session_counterexample:
  "fst (login (js ''ann'') (js ''pw'') (Inr exampleTokens) (Inl NoResponse) (initial Map.empty)) = False \<and>
   getItem (localStorage (initial Map.empty)) (js ''access_token'') = None \<and>
   getItem (localStorage (snd (login (js ''ann'') (js ''pw'') (Inr exampleTokens) (Inl NoResponse)
      (initial Map.empty)))) (js ''access_token'') = Some (js ''aaa.bbb.ccc'') \<and>
   getItem (localStorage (snd (login (js ''ann'') (js ''pw'') (Inr exampleTokens) (Inl NoResponse)
      (initial Map.empty)))) (js ''refresh_token'') = Some (js ''rrr'') \<and>
   errorDetail messageOnlyError = None \<and>
   toasts (snd (login (js ''ann'') (js ''pw'') (Inl messageOnlyError) (Inl NoResponse)
      (initial Map.empty))) = [ToastError (js ''Bad request'')] \<and>
   js ''Bad request'' \<noteq> loginFallback"
proof -
  have a: "localStorage (snd (login (js ''ann'') (js ''pw'') (Inr exampleTokens) (Inl NoResponse)
      (initial Map.empty))) =
      setItem (setItem Map.empty (js ''access_token'') (js ''aaa.bbb.ccc''))
        (js ''refresh_token'') (js ''rrr'')"
    by (simp add: login_profile_failure toast_fields call_fields)
      (simp add: call_def initial_def exampleTokens_def)
  have f: "failureMessage messageOnlyError loginFallback = js ''Bad request''"
    by (simp add: failureMessage_def orElse_def errorDetail_def errorMessage_def
        messageOnlyError_def js_def)
  have t: "toasts (snd (login (js ''ann'') (js ''pw'') (Inl messageOnlyError) (Inl NoResponse)
      (initial Map.empty))) = [ToastError (js ''Bad request'')]"
    by (simp add: login_token_failure toast_fields call_fields f) (simp add: initial_def)
  have ne: "js ''Bad request'' \<noteq> loginFallback"
    by (simp add: loginFallback_def js_def)
  have d: "errorDetail messageOnlyError = None"
    by (simp add: errorDetail_def messageOnlyError_def)
  have i: "getItem (localStorage (initial Map.empty)) (js ''access_token'') = None"
    by (simp add: initial_def getItem_def)
  have k: "getItem (setItem (setItem Map.empty (js ''access_token'') (js ''aaa.bbb.ccc''))
        (js ''refresh_token'') (js ''rrr'')) (js ''access_token'') = Some (js ''aaa.bbb.ccc'')"
    "getItem (setItem (setItem Map.empty (js ''access_token'') (js ''aaa.bbb.ccc''))
        (js ''refresh_token'') (js ''rrr'')) (js ''refresh_token'') = Some (js ''rrr'')"
    using key_neq by (simp_all add: getItem_def setItem_def)
  have r: "fst (login (js ''ann'') (js ''pw'') (Inr exampleTokens) (Inl NoResponse)
      (initial Map.empty)) = False"
    by (simp add: login_profile_failure)
  show ?thesis
    using t ne d i k r by (simp add: a)
qed

section \<open>Failures at the operations' boundaries\<close>

text \<open>
  C2 (as amended). \<open>login\<close>, \<open>register\<close> and \<open>sendMessage\<close> catch the failure of
  their request: \<open>login\<close> and \<open>register\<close> return false, \<open>sendMessage\<close> returns,
  and each raises one error notification. \<open>createNewConversation\<close> and
  \<open>deleteConversation\<close> do not catch it: the failure reaches the caller and the
  operation raises no notification. A failed \<open>sendMessage\<close>, \<open>createNewConversation\<close>
  or \<open>deleteConversation\<close> leaves the active conversation as it was and invalidates
  nothing, and a failed \<open>sendMessage\<close> leaves \<open>isSending\<close> false.
\<close>

theorem failures_caught_or_passed_on:
  "fst (login username' password (Inl e) profileResponse s) = False \<and>
   toasts (snd (login username' password (Inl e) profileResponse s)) =
     toasts s @ [ToastError (failureMessage e loginFallback)] \<and>
   fst (login username' password (Inr data) (Inl e) s) = False \<and>
   toasts (snd (login username' password (Inr data) (Inl e) s)) =
     toasts s @ [ToastError (failureMessage e loginFallback)] \<and>
   fst (register email' username' password (Inl e) s) = False \<and>
   toasts (snd (register email' username' password (Inl e) s)) =
     toasts s @ [ToastError (failureMessage e registerFallback)] \<and>
   (trim content' \<noteq> [] \<and> currentConversation s = Some c \<and> id_conversation c \<noteq> [] \<longrightarrow>
      toasts (sendMessage content' (Inl e) clk s) =
        toasts s @ [ToastError (js ''Failed to send message'')] \<and>
      currentConversation (sendMessage content' (Inl e) clk s) = currentConversation s \<and>
      invalidations (sendMessage content' (Inl e) clk s) = invalidations s \<and>
      isSending (sendMessage content' (Inl e) clk s) = False) \<and>
   fst (createNewConversation (Inl e) s) = Inl e \<and>
   toasts (snd (createNewConversation (Inl e) s)) = toasts s \<and>
   currentConversation (snd (createNewConversation (Inl e) s)) = currentConversation s \<and>
   invalidations (snd (createNewConversation (Inl e) s)) = invalidations s \<and>
   fst (deleteConversation cid (Inl e) s) = Inl e \<and>
   toasts (snd (deleteConversation cid (Inl e) s)) = toasts s \<and>
   currentConversation (snd (deleteConversation cid (Inl e) s)) = currentConversation s \<and>
   invalidations (snd (deleteConversation cid (Inl e) s)) = invalidations s"
proof -
  have l: "fst (login username' password (Inl e) profileResponse s) = False \<and>
   toasts (snd (login username' password (Inl e) profileResponse s)) =
     toasts s @ [ToastError (failureMessage e loginFallback)] \<and>
   fst (login username' password (Inr data) (Inl e) s) = False \<and>
   toasts (snd (login username' password (Inr data) (Inl e) s)) =
     toasts s @ [ToastError (failureMessage e loginFallback)]"
    by (simp add: login_token_failure login_profile_failure toast_fields call_fields)
  have r: "fst (register email' username' password (Inl e) s) = False \<and>
   toasts (snd (register email' username' password (Inl e) s)) =
     toasts s @ [ToastError (failureMessage e registerFallback)]"
    by (simp add: register_failure toast_fields call_fields)
  have m: "toasts (sendMessage content' (Inl e) clk s) =
        toasts s @ [ToastError (js ''Failed to send message'')] \<and>
      currentConversation (sendMessage content' (Inl e) clk s) = currentConversation s \<and>
      invalidations (sendMessage content' (Inl e) clk s) = invalidations s \<and>
      isSending (sendMessage content' (Inl e) clk s) = False"
    if "trim content' \<noteq> []" "currentConversation s = Some c" "id_conversation c \<noteq> []"
    by (simp add: sendMessage_failure [OF that])
  have c: "fst (createNewConversation (Inl e) s) = Inl e \<and>
   toasts (snd (createNewConversation (Inl e) s)) = toasts s \<and>
   currentConversation (snd (createNewConversation (Inl e) s)) = currentConversation s \<and>
   invalidations (snd (createNewConversation (Inl e) s)) = invalidations s"
    by (simp add: createNewConversation_failure call_fields)
  have d: "fst (deleteConversation cid (Inl e) s) = Inl e \<and>
   toasts (snd (deleteConversation cid (Inl e) s)) = toasts s \<and>
   currentConversation (snd (deleteConversation cid (Inl e) s)) = currentConversation s \<and>
   invalidations (snd (deleteConversation cid (Inl e) s)) = invalidations s"
    by (simp add: deleteConversation_failure call_fields)
  show ?thesis
    using l r m c d by blast
qed

theorem failures_caught_or_passed_on_witness:
  "fst (login (js ''ann'') (js ''pw'') (Inl NoResponse) (Inl NoResponse) activeState) = False \<and>
   fst (register (js ''ann@example.org'') (js ''ann'') (js ''pw'') (Inl NoResponse) activeState) =
     False \<and>
   toasts (sendMessage (js ''hello'') (Inl NoResponse) exampleClock activeState) =
     [ToastError (js ''Failed to send message'')] \<and>
   currentConversation (sendMessage (js ''hello'') (Inl NoResponse) exampleClock activeState) =
     Some exampleConversation \<and>
   isSending (sendMessage (js ''hello'') (Inl NoResponse) exampleClock activeState) = False \<and>
   fst (createNewConversation (Inl NoResponse) activeState) = Inl NoResponse"
proof -
  have ne: "trim (js ''hello'') \<noteq> []"
    by (simp add: trim_def js_def isWhiteSpace_def)
  have act: "currentConversation activeState = Some exampleConversation"
    by (simp add: activeState_def setCurrentConversation_def)
  have cid: "id_conversation exampleConversation \<noteq> []"
    by (simp add: exampleConversation_def js_def)
  have t: "toasts activeState = []"
    by (simp add: activeState_def setCurrentConversation_def initial_def)
  show ?thesis
    using failures_caught_or_passed_on [of "js ''ann''" "js ''pw''" NoResponse "Inl NoResponse"
        activeState exampleTokens "js ''ann@example.org''" "js ''hello''" exampleConversation
        exampleClock "js ''c1''"] ne act cid
    by (simp add: t)
qed

text \<open>
  The claim as first stated has all five operations catch their failures. Two do not:
  the rejection of the request is the result of \<open>createNewConversation\<close> and of
  \<open>deleteConversation\<close>, and neither raises a notification.
\<close>

theorem failures_caught_or_passed_on_counterexample:
  "fst (createNewConversation (Inl NoResponse) activeState) = Inl NoResponse \<and>
   toasts (snd (createNewConversation (Inl NoResponse) activeState)) = [] \<and>
   fst (deleteConversation (js ''c1'') (Inl NoResponse) activeState) = Inl NoResponse \<and>
   toasts (snd (deleteConversation (js ''c1'') (Inl NoResponse) activeState)) = []"
proof -
  have t: "toasts activeState = []"
    by (simp add: activeState_def setCurrentConversation_def initial_def)
  show ?thesis
    by (simp add: createNewConversation_failure deleteConversation_failure call_fields t)
qed

section \<open>Search\<close>

lemma searchCache_initAuth: "searchCache (initAuth jwtDecode s) = searchCache s"
  by (simp add: initAuth_def Let_def split: option.splits)

lemma searchCache_login:
  "searchCache (snd (login username' password tokenResponse profileResponse s)) = searchCache s"
  by (simp add: login_def Let_def call_def toast_def split: sum.splits)

lemma searchCache_register:
  "searchCache (snd (register email' username' password registerResponse s)) = searchCache s"
  by (simp add: register_def Let_def call_def toast_def split: sum.splits)

lemma searchCache_createNewConversation:
  "searchCache (snd (createNewConversation createResponse s)) = searchCache s"
  by (simp add: createNewConversation_def Let_def call_def invalidateConversations_def
      split: sum.splits)

lemma searchCache_deleteConversation:
  "searchCache (snd (deleteConversation cid deleteResponse s)) = searchCache s"
  by (simp add: deleteConversation_def Let_def call_def invalidateConversations_def
      setCurrentConversation_def split: sum.splits)

lemma searchCache_sendMessage:
  "searchCache (sendMessage content' chatResponse clk s) = searchCache s"
  by (simp add: sendMessage_def Let_def call_def toast_def invalidateConversations_def
      split: sum.splits)

lemma searchCache_loadConversation:
  "searchCache (loadConversation loadResponse s) = searchCache s"
  by (simp add: loadConversation_def Let_def call_def toast_def setCurrentConversation_def
      split: sum.splits)

lemma searchQueryFn_state:
  "searchCache (snd (searchQueryFn searchResponse s)) = searchCache s"
  by (simp add: searchQueryFn_def Let_def call_def split: sum.splits)

lemma searchCache_runSearch:
  "searchCache (runSearch searchResponse s) k = Some rs \<Longrightarrow>
   searchCache s k = Some rs \<or> (k = searchKey s \<and> searchEnabled s)"
proof (cases "searchEnabled s")
  case False
  assume "searchCache (runSearch searchResponse s) k = Some rs"
  with False show ?thesis by (simp add: runSearch_def)
next
  case True
  assume h: "searchCache (runSearch searchResponse s) k = Some rs"
  obtain r s1 where q: "searchQueryFn searchResponse s = (r, s1)"
    by (cases "searchQueryFn searchResponse s")
  have c: "searchCache s1 = searchCache s"
    using searchQueryFn_state [of searchResponse s] q by simp
  show ?thesis
  proof (cases r)
    case (Inl e)
    with h True q c show ?thesis by (simp add: runSearch_def)
  next
    case (Inr found)
    with h True q c show ?thesis
      by (cases "k = searchKey s") (simp_all add: runSearch_def)
  qed
qed

text \<open>The cache holds results only under keys for which the query was enabled.\<close>

lemma cache_only_enabled_keys:
  "reachable s \<Longrightarrow> searchCache s k = Some rs \<Longrightarrow> trim (fst k) \<noteq> [] \<and> truthy (snd k)"
proof (induction arbitrary: rs rule: reachable.induct)
  case (start storage)
  then show ?case by (simp add: initial_def)
next
  case (runSearch s searchResponse)
  from searchCache_runSearch [OF runSearch.prems]
  show ?case
  proof
    assume "searchCache s k = Some rs"
    then show ?thesis by (rule runSearch.IH)
  next
    assume "k = searchKey s \<and> searchEnabled s"
    then show ?thesis by (simp add: searchKey_def searchEnabled_def)
  qed
qed (simp_all add: searchCache_initAuth searchCache_login searchCache_register
    searchCache_createNewConversation searchCache_deleteConversation searchCache_sendMessage
    searchCache_loadConversation logout_fields setCurrentConversation_def setSearchQuery_def)

lemma disabled_no_results:
  assumes "reachable s" "\<not> searchEnabled s"
  shows "searchResults s = []"
proof (cases "searchCache s (searchKey s)")
  case None
  then show ?thesis by (simp add: searchResults_def)
next
  case (Some rs)
  from cache_only_enabled_keys [OF assms(1) Some] assms(2)
  show ?thesis by (simp add: searchKey_def searchEnabled_def)
qed

lemma not_enabled:
  "currentConversation s = None \<or> list_all isWhiteSpace q \<Longrightarrow>
   \<not> searchEnabled (setSearchQuery q s)"
  by (auto simp: searchEnabled_def setSearchQuery_def currentId_def truthy_def trim_Nil_iff)

text \<open>
  C8. In every reachable state, setting a search text while no conversation is active,
  or setting a search text that is empty or whitespace only, gives an empty result set,
  and neither the query nor its function makes a call on the HTTP client: the query
  leaves the state as it is and the function returns the empty list. In particular
  clearing the search text gives an empty result set whatever was found before.
\<close>

theorem search_gated:
  "reachable s \<Longrightarrow>
   (currentConversation s = None \<or> list_all isWhiteSpace q \<longrightarrow>
      searchResults (setSearchQuery q s) = [] \<and>
      runSearch searchResponse (setSearchQuery q s) = setSearchQuery q s \<and>
      searchQueryFn searchResponse (setSearchQuery q s) = (Inr [], setSearchQuery q s)) \<and>
   searchResults (setSearchQuery [] s) = []"
proof -
  assume r: "reachable s"
  have r': "reachable (setSearchQuery q' s)" for q'
    using r by (rule reachable.setSearchQuery)
  have a: "searchResults (setSearchQuery q s) = [] \<and>
      runSearch searchResponse (setSearchQuery q s) = setSearchQuery q s \<and>
      searchQueryFn searchResponse (setSearchQuery q s) = (Inr [], setSearchQuery q s)"
    if h: "currentConversation s = None \<or> list_all isWhiteSpace q"
  proof -
    have d: "\<not> searchEnabled (setSearchQuery q s)"
      using h by (rule not_enabled)
    have "searchQueryFn searchResponse (setSearchQuery q s) = (Inr [], setSearchQuery q s)"
      using d by (auto simp: searchQueryFn_def searchEnabled_def)
    then show ?thesis
      using d disabled_no_results [OF r' d] by (simp add: runSearch_def)
  qed
  have "\<not> searchEnabled (setSearchQuery [] s)"
    by (rule not_enabled) simp
  then have b: "searchResults (setSearchQuery [] s) = []"
    by (rule disabled_no_results [OF r'])
  show ?thesis using a b by blast
qed

theorem search_gated_witness:
  "reachable searchedState \<and>
   searchResults searchedState = [js ''hello there''] \<and>
   searchResults (setSearchQuery [] searchedState) = [] \<and>
   searchResults (setSearchQuery (js ''   '') searchedState) = [] \<and>
   currentConversation (initial Map.empty) = None \<and>
   searchResults (setSearchQuery (js ''hello'') (initial Map.empty)) = [] \<and>
   runSearch exampleHits (setSearchQuery (js ''hello'') (initial Map.empty)) =
     setSearchQuery (js ''hello'') (initial Map.empty)"
proof -
  have r: "reachable searchedState"
    unfolding searchedState_def activeState_def
    by (intro reachable.runSearch reachable.setSearchQuery reachable.setCurrentConversation
        reachable.start)
  have r0: "reachable (initial Map.empty)"
    by (rule reachable.start)
  have ws: "list_all isWhiteSpace (js ''   '')"
    by (simp add: js_def isWhiteSpace_def)
  have none: "currentConversation (initial Map.empty) = None"
    by (simp add: initial_def)
  have en: "searchEnabled (setSearchQuery (js ''hello'') activeState)"
    by (simp add: searchEnabled_def setSearchQuery_def activeState_def setCurrentConversation_def
        currentId_def exampleConversation_def truthy_def initial_def trim_def js_def
        isWhiteSpace_def)
  have pop: "searchResults searchedState = [js ''hello there'']"
    using en
    by (simp add: searchedState_def runSearch_def searchQueryFn_def searchEnabled_def
        exampleHits_def call_def searchResults_def searchKey_def setSearchQuery_def currentId_def)
  show ?thesis
    using search_gated [OF r, of "js ''   ''" exampleHits]
      search_gated [OF r0, of "js ''hello''" exampleHits] r ws none pop
    by simp
qed

section \<open>The bearer credential\<close>

lemma login_success:
  "login username' password (Inr data) (Inr profile) s =
     (True, toast (ToastSuccess (js ''Logged in successfully!''))
        (call (GET (js ''/api/users/me/''))
           (call (POST (js ''/auth/token/'') (TokenBody username' password)) s
              \<lparr>localStorage :=
                 setItem (setItem (localStorage s) (js ''access_token'') (access data))
                   (js ''refresh_token'') (refresh data),
               defaultAuthorization := Some (js ''Bearer '' @ access data)\<rparr>)
         \<lparr>user := Some profile\<rparr>))"
  by (simp add: login_def call_def)

lemma requestInterceptor_attaches:
  assumes "\<not> urlIncludes (url cfg) (js ''token'')" "\<not> urlIncludes (url cfg) (js ''login'')"
    and "getItem storage (js ''access_token'') = Some token" "token \<noteq> []"
  shows "requestInterceptor storage cfg =
     cfg\<lparr>headers := (headers cfg)(js ''Authorization'' \<mapsto> js ''Bearer '' @ token)\<rparr>"
  using assms by (simp add: requestInterceptor_def)

lemma requestInterceptor_skips:
  assumes "urlIncludes (url cfg) (js ''token'') \<or> urlIncludes (url cfg) (js ''login'')"
  shows "requestInterceptor storage cfg = cfg"
  using assms by (auto simp: requestInterceptor_def)

lemma requestInterceptor_no_token:
  assumes "getItem storage (js ''access_token'') = None \<or>
     getItem storage (js ''access_token'') = Some []"
  shows "requestInterceptor storage cfg = cfg"
  using assms by (auto simp: requestInterceptor_def)

lemma withDefaults_url: "url (withDefaults s cfg) = url cfg"
  by (simp add: withDefaults_def split: option.splits)

lemma withDefaults_Authorization:
  "headers (withDefaults s cfg) (js ''Authorization'') =
     (case headers cfg (js ''Authorization'') of
        Some a \<Rightarrow> Some a
      | None \<Rightarrow> defaultAuthorization s)"
  by (simp add: withDefaults_def map_add_def split: option.splits)

text \<open>
  C6 (as amended). For every request the client sends from any state: when its path
  contains neither \<open>token\<close> nor \<open>login\<close>, or it has no path, and the stored access
  token is not empty, the request goes out with the \<open>Authorization\<close> header
  \<open>Bearer\<close> followed by that token, whatever the request or the client's defaults had
  put there. When its path contains \<open>token\<close> or \<open>login\<close>, the request sets no
  \<open>Authorization\<close> header itself and the client has no default one, the request goes
  out without an \<open>Authorization\<close> header. The path is never changed.
\<close>

theorem outbound_bearer:
  "(\<not> urlIncludes (url cfg) (js ''token'') \<and> \<not> urlIncludes (url cfg) (js ''login'') \<and>
    getItem (localStorage s) (js ''access_token'') = Some token \<and> token \<noteq> [] \<longrightarrow>
      headers (outbound s cfg) (js ''Authorization'') = Some (js ''Bearer '' @ token)) \<and>
   ((urlIncludes (url cfg) (js ''token'') \<or> urlIncludes (url cfg) (js ''login'')) \<and>
    defaultAuthorization s = None \<and> headers cfg (js ''Authorization'') = None \<longrightarrow>
      headers (outbound s cfg) (js ''Authorization'') = None) \<and>
   url (outbound s cfg) = url cfg"
proof -
  have a: "headers (outbound s cfg) (js ''Authorization'') = Some (js ''Bearer '' @ token)"
    if "\<not> urlIncludes (url cfg) (js ''token'')" "\<not> urlIncludes (url cfg) (js ''login'')"
      "getItem (localStorage s) (js ''access_token'') = Some token" "token \<noteq> []"
  proof -
    have "\<not> urlIncludes (url (withDefaults s cfg)) (js ''token'')"
      "\<not> urlIncludes (url (withDefaults s cfg)) (js ''login'')"
      using that(1,2) by (simp_all add: withDefaults_url)
    from requestInterceptor_attaches [OF this that(3,4)]
    show ?thesis by (simp add: outbound_def)
  qed
  have b: "headers (outbound s cfg) (js ''Authorization'') = None"
    if "urlIncludes (url cfg) (js ''token'') \<or> urlIncludes (url cfg) (js ''login'')"
      "defaultAuthorization s = None" "headers cfg (js ''Authorization'') = None"
  proof -
    have "urlIncludes (url (withDefaults s cfg)) (js ''token'') \<or>
        urlIncludes (url (withDefaults s cfg)) (js ''login'')"
      using that(1) by (simp add: withDefaults_url)
    then have "outbound s cfg = withDefaults s cfg"
      unfolding outbound_def by (rule requestInterceptor_skips)
    then show ?thesis
      using that(2,3) by (simp add: withDefaults_Authorization)
  qed
  have c: "url (outbound s cfg) = url cfg"
    by (simp add: outbound_def requestInterceptor_def withDefaults_url split: option.splits)
  show ?thesis using a b c by blast
qed

lemma chat_path:
  "\<not> urlIncludes (url (exampleConfig (js ''/chat/''))) (js ''token'')"
  "\<not> urlIncludes (url (exampleConfig (js ''/chat/''))) (js ''login'')"
  by (simp_all add: exampleConfig_def urlIncludes_def js_def)

lemma token_path: "urlIncludes (url tokenRequest) (js ''token'')"
  by (simp add: tokenRequest_def urlIncludes_def js_def)

lemma delete_path: "urlIncludes (url deleteRequest) (js ''token'')"
  by (simp add: deleteRequest_def exampleConfig_def urlIncludes_def js_def)

lemma header_names: "js ''Content-Type'' \<noteq> js ''Authorization''"
  by (simp add: js_def)

theorem outbound_bearer_witness:
  "getItem (localStorage (initial exampleStorage)) (js ''access_token'') =
     Some (js ''aaa.bbb.ccc'') \<and>
   headers (outbound (initial exampleStorage) (exampleConfig (js ''/chat/''))) (js ''Authorization'') =
     Some (js ''Bearer aaa.bbb.ccc'') \<and>
   defaultAuthorization (initial exampleStorage) = None \<and>
   headers tokenRequest (js ''Authorization'') = None \<and>
   headers (outbound (initial exampleStorage) tokenRequest) (js ''Authorization'') = None \<and>
   url (outbound (initial exampleStorage) tokenRequest) = Some (js ''/auth/token/'')"
proof -
  have g: "getItem (localStorage (initial exampleStorage)) (js ''access_token'') =
      Some (js ''aaa.bbb.ccc'')"
    using key_neq by (simp add: getItem_def exampleStorage_def initial_def)
  have ne: "js ''aaa.bbb.ccc'' \<noteq> []"
    by (simp add: js_def)
  have d: "defaultAuthorization (initial exampleStorage) = None"
    by (simp add: initial_def)
  have h: "headers tokenRequest (js ''Authorization'') = None"
    using header_names by (simp add: tokenRequest_def)
  have b: "js ''Bearer '' @ js ''aaa.bbb.ccc'' = js ''Bearer aaa.bbb.ccc''"
    by (simp add: js_def)
  have u: "url tokenRequest = Some (js ''/auth/token/'')"
    by (simp add: tokenRequest_def)
  show ?thesis
    using outbound_bearer [of "exampleConfig (js ''/chat/'')" "initial exampleStorage"
        "js ''aaa.bbb.ccc''"]
      outbound_bearer [of tokenRequest "initial exampleStorage" "js ''aaa.bbb.ccc''"]
      g ne d h chat_path token_path
    by (simp add: b u)
qed

text \<open>
  The claim as first stated fails at three inputs. With the empty string stored as
  access token, a request to \<open>/chat/\<close> goes out without the header. With a token
  stored, the request that deletes the conversation \<open>token-1\<close> goes out without the
  header: its path is no login or token endpoint, but it contains \<open>token\<close>. And after
  a login that succeeded, the next request to the token endpoint \<open>/auth/token/\<close> goes
  out with the stored token as its bearer: the interceptor adds nothing, the default
  header \<open>login\<close> wrote does. The interceptor's comment, "Only add auth header for
  non-authentication endpoints", says otherwise.
\<close>

theorem outbound_bearer_counterexample:
  "getItem (localStorage (initial emptyTokenStorage)) (js ''access_token'') = Some [] \<and>
   \<not> urlIncludes (url (exampleConfig (js ''/chat/''))) (js ''token'') \<and>
   \<not> urlIncludes (url (exampleConfig (js ''/chat/''))) (js ''login'') \<and>
   headers (outbound (initial emptyTokenStorage) (exampleConfig (js ''/chat/'')))
     (js ''Authorization'') = None \<and>
   getItem (localStorage (initial exampleStorage)) (js ''access_token'') =
     Some (js ''aaa.bbb.ccc'') \<and>
   requests (snd (deleteConversation (js ''token-1'') (Inr ()) (initial exampleStorage))) =
     [DELETE (js ''/chat/conversations/'' @ js ''token-1'' @ js ''/'')] \<and>
   url deleteRequest = Some (js ''/chat/conversations/'' @ js ''token-1'' @ js ''/'') \<and>
   headers (outbound (initial exampleStorage) deleteRequest) (js ''Authorization'') = None \<and>
   getItem (localStorage loggedInState) (js ''access_token'') = Some (js ''aaa.bbb.ccc'') \<and>
   url tokenRequest = Some (js ''/auth/token/'') \<and>
   headers (outbound loggedInState tokenRequest) (js ''Authorization'') =
     Some (js ''Bearer aaa.bbb.ccc'')"
proof -
  have g0: "getItem (localStorage (initial emptyTokenStorage)) (js ''access_token'') = Some []"
    using key_neq by (simp add: getItem_def emptyTokenStorage_def initial_def)
  have d0: "withDefaults (initial storage) cfg = cfg" for storage cfg
    by (simp add: withDefaults_def initial_def)
  have "requestInterceptor (localStorage (initial emptyTokenStorage)) (exampleConfig (js ''/chat/'')) =
      exampleConfig (js ''/chat/'')"
    by (rule requestInterceptor_no_token) (simp add: g0)
  then have a: "headers (outbound (initial emptyTokenStorage) (exampleConfig (js ''/chat/'')))
     (js ''Authorization'') = None"
    by (simp add: outbound_def d0) (simp add: exampleConfig_def)
  have g1: "getItem (localStorage (initial exampleStorage)) (js ''access_token'') =
      Some (js ''aaa.bbb.ccc'')"
    using key_neq by (simp add: getItem_def exampleStorage_def initial_def)
  have r: "requests (snd (deleteConversation (js ''token-1'') (Inr ()) (initial exampleStorage))) =
     [DELETE (js ''/chat/conversations/'' @ js ''token-1'' @ js ''/'')]"
    by (simp add: deleteConversation_success invalidateConversations_fields call_fields
        setCurrentConversation_def)
      (simp add: initial_def)
  have u: "url deleteRequest = Some (js ''/chat/conversations/'' @ js ''token-1'' @ js ''/'')"
    by (simp add: deleteRequest_def exampleConfig_def)
  have "requestInterceptor (localStorage (initial exampleStorage)) deleteRequest = deleteRequest"
    by (rule requestInterceptor_skips) (simp add: delete_path)
  then have c: "headers (outbound (initial exampleStorage) deleteRequest) (js ''Authorization'') = None"
    by (simp add: outbound_def d0) (simp add: deleteRequest_def exampleConfig_def)
  have ls: "localStorage loggedInState =
      setItem (setItem Map.empty (js ''access_token'') (js ''aaa.bbb.ccc''))
        (js ''refresh_token'') (js ''rrr'')"
    by (simp add: loggedInState_def login_success toast_fields call_fields)
      (simp add: call_def initial_def exampleTokens_def)
  have g2: "getItem (localStorage loggedInState) (js ''access_token'') = Some (js ''aaa.bbb.ccc'')"
    using key_neq by (simp add: ls getItem_def setItem_def)
  have da: "defaultAuthorization loggedInState = Some (js ''Bearer aaa.bbb.ccc'')"
    by (simp add: loggedInState_def login_success toast_fields call_fields)
      (simp add: call_def exampleTokens_def js_def)
  have "requestInterceptor (localStorage loggedInState) (withDefaults loggedInState tokenRequest) =
      withDefaults loggedInState tokenRequest"
    by (rule requestInterceptor_skips) (simp add: withDefaults_url token_path)
  moreover have "headers tokenRequest (js ''Authorization'') = None"
    using header_names by (simp add: tokenRequest_def)
  ultimately have b: "headers (outbound loggedInState tokenRequest) (js ''Authorization'') =
     Some (js ''Bearer aaa.bbb.ccc'')"
    by (simp add: outbound_def withDefaults_Authorization da)
  have ut: "url tokenRequest = Some (js ''/auth/token/'')"
    by (simp add: tokenRequest_def)
  show ?thesis
    using g0 chat_path a g1 r u c g2 ut b by simp
qed

end
